theory Spec2Isabelle
  imports Main "HOL-Library.Sublist" "HOL-Library.AList"
begin

section \<open>Strings, paths and dictionaries\<close>

text \<open>
  Python strings are modelled as \<open>string\<close>. The helpers below follow the Python 2
  library functions that build.py calls: \<open>str.startswith\<close>, \<open>str.endswith\<close>,
  \<open>str.join\<close>, \<open>posixpath.join\<close> and \<open>posixpath.basename\<close>.
\<close>

definition startswith :: "string \<Rightarrow> string \<Rightarrow> bool" where
  "startswith s p = prefix p s"

definition endswith :: "string \<Rightarrow> string \<Rightarrow> bool" where
  "endswith s p = suffix p s"

fun str_join :: "string \<Rightarrow> string list \<Rightarrow> string" where
  "str_join sep [] = []"
| "str_join sep [x] = x"
| "str_join sep (x # y # ys) = x @ sep @ str_join sep (y # ys)"

definition path_join2 :: "string \<Rightarrow> string \<Rightarrow> string" where
  "path_join2 path b =
     (if startswith b ''/'' then b
      else if path = [] \<or> endswith path ''/'' then path @ b
      else path @ ''/'' @ b)"

definition path_join :: "string \<Rightarrow> string list \<Rightarrow> string" where
  "path_join a p = foldl path_join2 a p"

definition basename :: "string \<Rightarrow> string" where
  "basename p = rev (takeWhile (\<lambda>c. c \<noteq> CHR ''/'') (rev p))"

text \<open>
  A Python \<open>dict\<close> from strings to strings is an association list with unique keys.
  \<open>d[k] = v\<close> is \<open>dict_set\<close>, \<open>d.update(other)\<close> is \<open>dict_update\<close>, a lookup is
  \<open>map_of\<close>. The order in which Python 2 iterates over a dict is not modelled: the
  list order here is insertion order.
\<close>

type_synonym dict = "(string \<times> string) list"

definition dict_set :: "string \<Rightarrow> string \<Rightarrow> dict \<Rightarrow> dict" where
  "dict_set k v d = AList.update k v d"

definition dict_update :: "dict \<Rightarrow> dict \<Rightarrow> dict" where
  "dict_update d other = fold (\<lambda>(k, v). dict_set k v) other d"

section \<open>The host: modules \<open>utils\<close> and \<open>android_version\<close>\<close>

text \<open>
  build.py imports \<open>utils\<close> and \<open>android_version\<close>, which are not part of the
  source under study. What it uses from them is taken as a parameter.
\<close>

record host =
  android_path :: "string list \<Rightarrow> string"
  out_path :: "string list \<Rightarrow> string"
  llvm_path :: "string list \<Rightarrow> string"
  build_os_type :: string
  host_is_linux :: bool
  host_is_darwin :: bool
  patch_level :: string
  svn_revision :: string
  ORIG_ENV :: dict

definition example_host :: host where
  "example_host =
     \<lparr> android_path = path_join ''/aosp'',
       out_path = path_join ''/aosp/out'',
       llvm_path = path_join ''/aosp/toolchain/llvm'',
       build_os_type = ''linux-x86'',
       host_is_linux = True,
       host_is_darwin = False,
       patch_level = ''1'',
       svn_revision = ''r308904'',
       ORIG_ENV = [(''PATH'', ''/usr/bin'')] \<rparr>"

section \<open>Toolchain paths\<close>

definition ndk_base :: "host \<Rightarrow> string" where
  "ndk_base h = android_path h [''toolchain/prebuilts/ndk'', ''r16'']"

definition android_api :: "string \<Rightarrow> bool \<Rightarrow> string" where
  "android_api arch platform =
     (if platform then ''26''
      else if arch \<in> set [''arm'', ''i386'', ''mips''] then ''14''
      else ''21'')"

definition ndk_path :: "host \<Rightarrow> string \<Rightarrow> bool \<Rightarrow> string" where
  "ndk_path h arch platform =
     path_join (ndk_base h) [''platforms'', ''android-'' @ android_api arch platform]"

definition ndk_libcxx_headers :: "host \<Rightarrow> string" where
  "ndk_libcxx_headers h =
     path_join (ndk_base h) [''sources'', ''cxx-stl'', ''llvm-libc++'', ''include'']"

definition ndk_libcxxabi_headers :: "host \<Rightarrow> string" where
  "ndk_libcxxabi_headers h =
     path_join (ndk_base h) [''sources'', ''cxx-stl'', ''llvm-libc++abi'', ''include'']"

definition ndk_toolchain_lib :: "host \<Rightarrow> string \<Rightarrow> string \<Rightarrow> string \<Rightarrow> string" where
  "ndk_toolchain_lib h arch toolchain_root host_tag =
     (let toolchain_lib =
            path_join (ndk_base h)
              [''toolchains'', toolchain_root, ''prebuilt'', ''linux-x86_64'', host_tag]
      in if arch \<in> set [''arm'', ''i386'', ''mips'']
         then path_join toolchain_lib [''lib'']
         else path_join toolchain_lib [''lib64''])"

definition support_headers :: "host \<Rightarrow> string" where
  "support_headers h =
     path_join (ndk_base h) [''sources'', ''android'', ''support'', ''include'']"

definition clang_prebuilt_version :: string where
  "clang_prebuilt_version = ''clang-4393122''"

definition clang_prebuilt_base_dir :: "host \<Rightarrow> string" where
  "clang_prebuilt_base_dir h =
     android_path h [''prebuilts/clang/host'', build_os_type h, clang_prebuilt_version]"

definition clang_prebuilt_bin_dir :: "host \<Rightarrow> string" where
  "clang_prebuilt_bin_dir h = android_path h [clang_prebuilt_base_dir h, ''bin'']"

definition clang_prebuilt_lib_dir :: "host \<Rightarrow> string" where
  "clang_prebuilt_lib_dir h = android_path h [clang_prebuilt_base_dir h, ''lib64'']"

definition arch_from_triple :: "string \<Rightarrow> string" where
  "arch_from_triple triple =
     (let arch = takeWhile (\<lambda>c. c \<noteq> CHR ''-'') triple
      in if arch = ''i686'' then ''i386'' else arch)"

definition clang_resource_dir :: "string \<Rightarrow> string \<Rightarrow> string" where
  "clang_resource_dir version arch =
     path_join ''lib64'' [''clang'', version, ''lib'', ''linux'', arch]"

definition clang_prebuilt_libcxx_headers :: "host \<Rightarrow> string" where
  "clang_prebuilt_libcxx_headers h =
     android_path h [clang_prebuilt_base_dir h, ''include'', ''c++'', ''v1'']"

definition libcxx_header_dirs :: "host \<Rightarrow> bool \<Rightarrow> string list" where
  "libcxx_header_dirs h ndk_cxx =
     (if ndk_cxx
      then [ndk_libcxx_headers h, ndk_libcxxabi_headers h, support_headers h]
      else [clang_prebuilt_libcxx_headers h,
            android_path h [''bionic'', ''libc'', ''include'']])"

definition cmake_prebuilt_bin_dir :: "host \<Rightarrow> string" where
  "cmake_prebuilt_bin_dir h = android_path h [''prebuilts/cmake'', build_os_type h, ''bin'']"

definition cmake_bin_path :: "host \<Rightarrow> string" where
  "cmake_bin_path h = path_join (cmake_prebuilt_bin_dir h) [''cmake'']"

definition ninja_bin_path :: "host \<Rightarrow> string" where
  "ninja_bin_path h = path_join (cmake_prebuilt_bin_dir h) [''ninja'']"

definition base_cmake_defines :: "host \<Rightarrow> dict" where
  "base_cmake_defines h =
     [(''CMAKE_BUILD_TYPE'', ''Release''),
      (''LLVM_ENABLE_ASSERTIONS'', ''OFF''),
      (''LLVM_ENABLE_THREADS'', ''OFF''),
      (''LLVM_LIBDIR_SUFFIX'', ''64''),
      (''LLVM_VERSION_PATCH'', patch_level h),
      (''CLANG_VERSION_PATCHLEVEL'', patch_level h),
      (''CLANG_REPOSITORY_STRING'', ''https://android.googlesource.com/toolchain/clang''),
      (''LLVM_REPOSITORY_STRING'', ''https://android.googlesource.com/toolchain/llvm'')]"

section \<open>The configuration matrix: \<open>cross_compile_configs\<close>\<close>

text \<open>
  The generator iterates over a fixed table of five-tuples
  (arch, ndk_arch, toolchain_path, llvm_triple, extra_flags) and yields one
  (arch, llvm_triple, defines, cflags) per entry. \<open>cross_ldflags\<close> is the local list
  \<open>ldflags\<close> of the loop body, \<open>cross_compile_config\<close> the loop body, and
  \<open>cross_compile_configs\<close> the generator, read as the list of what it yields.
\<close>

type_synonym arch_entry = "string \<times> string \<times> string \<times> string \<times> string"

type_synonym arch_config = "string \<times> string \<times> dict \<times> string list"

definition configs :: "arch_entry list" where
  "configs =
     [(''arm'', ''arm'', ''arm/arm-linux-androideabi-4.9/arm-linux-androideabi'',
       ''arm-linux-android'', ''-march=armv7-a''),
      (''aarch64'', ''arm64'', ''aarch64/aarch64-linux-android-4.9/aarch64-linux-android'',
       ''aarch64-linux-android'', ''''),
      (''x86_64'', ''x86_64'', ''x86/x86_64-linux-android-4.9/x86_64-linux-android'',
       ''x86_64-linux-android'', ''''),
      (''i386'', ''x86'', ''x86/x86_64-linux-android-4.9/x86_64-linux-android'',
       ''i686-linux-android'', ''-m32''),
      (''mips'', ''mips'', ''mips/mips64el-linux-android-4.9/mips64el-linux-android'',
       ''mipsel-linux-android'', ''-m32''),
      (''mips64'', ''mips64'', ''mips/mips64el-linux-android-4.9/mips64el-linux-android'',
       ''mips64el-linux-android'', ''-m64'')]"

definition cross_ldflags :: "host \<Rightarrow> bool \<Rightarrow> arch_entry \<Rightarrow> string list" where
  "cross_ldflags h platform e =
     (case e of (arch, ndk_arch, toolchain_path, llvm_triple, extra_flags) \<Rightarrow>
      let toolchain_root = android_path h [''prebuilts/gcc'', build_os_type h];
          sysroot_libs = path_join (ndk_path h arch platform) [''arch-'' @ ndk_arch];
          toolchain_builtins0 =
            path_join toolchain_root
              [toolchain_path, ''..'', ''lib'', ''gcc'', basename toolchain_path, ''4.9.x''];
          toolchain_builtins =
            (if arch = ''i386'' then path_join toolchain_builtins0 [''32'']
             else if arch = ''mips'' then path_join toolchain_builtins0 [''32'', ''mips-r2'']
             else toolchain_builtins0);
          libcxx_libs0 =
            path_join (ndk_base h) [''sources'', ''cxx-stl'', ''llvm-libc++'', ''libs''];
          libcxx_libs =
            (if ndk_arch = ''arm'' then path_join libcxx_libs0 [''armeabi'']
             else if ndk_arch = ''arm64'' then path_join libcxx_libs0 [''arm64-v8a'']
             else path_join libcxx_libs0 [ndk_arch]);
          toolchain_lib =
            (if ndk_arch = ''arm''
             then ndk_toolchain_lib h arch ''arm-linux-androideabi-4.9''
                    ''arm-linux-androideabi''
             else if ndk_arch = ''x86'' \<or> ndk_arch = ''x86_64''
             then ndk_toolchain_lib h arch (ndk_arch @ ''-4.9'') llvm_triple
             else ndk_toolchain_lib h arch (llvm_triple @ ''-4.9'') llvm_triple);
          ldflags =
            [''-L'' @ toolchain_builtins, ''-Wl,-z,defs'', ''-L'' @ libcxx_libs,
             ''-L'' @ toolchain_lib, ''--sysroot='' @ sysroot_libs]
      in if arch \<noteq> ''mips'' \<and> arch \<noteq> ''mips64''
         then ldflags @ [''-Wl,--hash-style=both'']
         else ldflags)"

definition cross_compile_config :: "host \<Rightarrow> string \<Rightarrow> bool \<Rightarrow> arch_entry \<Rightarrow> arch_config" where
  "cross_compile_config h stage2_install platform e =
     (case e of (arch, ndk_arch, toolchain_path, llvm_triple, extra_flags) \<Rightarrow>
      let cc = path_join stage2_install [''bin'', ''clang''];
          cxx = path_join stage2_install [''bin'', ''clang++''];
          toolchain_root = android_path h [''prebuilts/gcc'', build_os_type h];
          toolchain_bin = path_join toolchain_root [toolchain_path, ''bin''];
          sysroot = path_join (ndk_base h) [''sysroot''];
          sysroot_headers =
            (if arch = ''arm''
             then path_join sysroot [''usr'', ''include'', ''arm-linux-androideabi'']
             else path_join sysroot [''usr'', ''include'', llvm_triple]);
          ldflags = cross_ldflags h platform e;
          defines =
            [(''CMAKE_C_COMPILER'', cc),
             (''CMAKE_CXX_COMPILER'', cxx),
             (''CMAKE_EXE_LINKER_FLAGS'', str_join '' '' ldflags),
             (''CMAKE_SHARED_LINKER_FLAGS'', str_join '' '' ldflags),
             (''CMAKE_MODULE_LINKER_FLAGS'', str_join '' '' ldflags),
             (''CMAKE_SYSROOT'', sysroot),
             (''CMAKE_SYSROOT_COMPILE'', sysroot)];
          cflags =
            [''--target='' @ llvm_triple,
             ''-B'' @ toolchain_bin,
             ''-isystem '' @ sysroot_headers,
             ''-D__ANDROID_API__='' @ android_api arch platform,
             extra_flags]
      in (arch, llvm_triple, defines, cflags))"

definition cross_compile_configs :: "host \<Rightarrow> string \<Rightarrow> bool \<Rightarrow> arch_config list" where
  "cross_compile_configs h stage2_install platform =
     map (cross_compile_config h stage2_install platform) configs"

section \<open>Effects: the trace, the oracle and the program monad\<close>

text \<open>
  build.py is a sequence of effects on the outside world. The model keeps them in a
  trace of events, oldest first: every subprocess started through \<open>check_call\<close>, every
  record handed to the module logger, and every change made to the file system through
  \<open>os\<close>, \<open>shutil\<close>, \<open>utils\<close> and \<open>mapfile\<close>. What the script reads from the outside
  world (exit status of a subprocess, existence and listing of paths, the installed
  compiler's version) comes from an oracle that may depend on everything done so far.
  An exception is a value: a program returns \<open>Inl e\<close> together with the trace at the
  moment of the raise. I/O errors of the file-system calls themselves are not modelled.
\<close>

record cmd =
  argv :: "string list"
  cwd :: "string option"
  cmd_env :: "dict option"

datatype level = Info | Debug

datatype node = Reg | Link string

type_synonym dir = "(string \<times> node) list"

datatype event =
    Call cmd
  | Log level string "string list"
  | Makedirs string
  | RmCmakeCache string
  | Copy2 string string
  | Remove string
  | UtilsRemove string
  | Touch string
  | WriteFile string string
  | RmTree string
  | Move string string
  | Symlink string string
  | CopyTree string string
  | CreateMapFile string string
  | NormalizedLibs string dir

datatype error = RuntimeError string | CalledProcessError cmd

type_synonym trace = "event list"

type_synonym 'a prog = "trace \<Rightarrow> (error + 'a) \<times> trace"

record version =
  major :: string
  short_version :: string
  long_version :: string

record world =
  engine :: "trace \<Rightarrow> cmd \<Rightarrow> bool"
  path_exists :: "trace \<Rightarrow> string \<Rightarrow> bool"
  path_isfile :: "trace \<Rightarrow> string \<Rightarrow> bool"
  path_isdir :: "trace \<Rightarrow> string \<Rightarrow> bool"
  listdir :: "trace \<Rightarrow> string \<Rightarrow> string list"
  glob_files :: "trace \<Rightarrow> string \<Rightarrow> string list"
  read_text :: "trace \<Rightarrow> string \<Rightarrow> string"
  version_of :: "trace \<Rightarrow> string \<Rightarrow> version"
  lib64_of :: "trace \<Rightarrow> string \<Rightarrow> dir"

definition return_prog :: "'a \<Rightarrow> 'a prog" where
  "return_prog x t = (Inr x, t)"

definition raise :: "error \<Rightarrow> 'a prog" where
  "raise e t = (Inl e, t)"

definition bind_prog :: "'a prog \<Rightarrow> ('a \<Rightarrow> 'b prog) \<Rightarrow> 'b prog" where
  "bind_prog m f t = (case m t of (Inl e, t') \<Rightarrow> (Inl e, t') | (Inr x, t') \<Rightarrow> f x t')"

definition emit :: "event \<Rightarrow> unit prog" where
  "emit e t = (Inr (), t @ [e])"

definition ask :: "(trace \<Rightarrow> 'a) \<Rightarrow> 'a prog" where
  "ask q t = (Inr (q t), t)"

fun seq :: "unit prog list \<Rightarrow> unit prog" where
  "seq [] = return_prog ()"
| "seq (m # ms) = bind_prog m (\<lambda>_. seq ms)"

definition for_each :: "'a list \<Rightarrow> ('a \<Rightarrow> unit prog) \<Rightarrow> unit prog" where
  "for_each xs body = seq (map body xs)"

definition when_prog :: "bool \<Rightarrow> unit prog \<Rightarrow> unit prog" where
  "when_prog b m = (if b then m else return_prog ())"

section \<open>Logging and file-system helpers\<close>

text \<open>
  \<open>check_call\<close> logs the command and starts it; a non-zero exit status raises
  \<open>CalledProcessError\<close>. The log record's clock reading is left out and the command
  line is the argument vector joined by blanks.
\<close>

definition check_call :: "world \<Rightarrow> cmd \<Rightarrow> unit prog" where
  "check_call orc c t =
     (let t1 = t @ [Log Info ''check_call:%s %s'' [str_join '' '' (argv c)]]
      in if engine orc t1 c then (Inr (), t1 @ [Call c])
         else (Inl (CalledProcessError c), t1 @ [Call c]))"

definition install_file :: "string \<Rightarrow> string \<Rightarrow> unit prog" where
  "install_file src dst = seq [emit (Log Info ''copy %s %s'' [src, dst]), emit (Copy2 src dst)]"

definition remove :: "string \<Rightarrow> unit prog" where
  "remove path = seq [emit (Log Debug ''remove %s'' [path]), emit (Remove path)]"

definition extract_clang_version :: "world \<Rightarrow> string \<Rightarrow> version prog" where
  "extract_clang_version orc clang_install =
     ask (\<lambda>t. version_of orc t
            (path_join clang_install [''include'', ''clang'', ''Basic'', ''Version.inc'']))"

definition extract_clang_long_version :: "world \<Rightarrow> string \<Rightarrow> string prog" where
  "extract_clang_long_version orc clang_install =
     bind_prog (extract_clang_version orc clang_install) (\<lambda>v. return_prog (long_version v))"

definition pgo_profdata_file :: "host \<Rightarrow> world \<Rightarrow> string \<Rightarrow> string option prog" where
  "pgo_profdata_file h orc version_str =
     (let profdata_file = version_str @ ''.profdata'';
          profile = android_path h
            [''prebuilts'', ''clang'', ''host'', ''linux-x86'', ''profiles'', profdata_file]
      in ask (\<lambda>t. if path_exists orc t profile then Some profile else None))"

definition check_create_path :: "world \<Rightarrow> string \<Rightarrow> unit prog" where
  "check_create_path orc path =
     bind_prog (ask (\<lambda>t. path_exists orc t path))
       (\<lambda>ex. when_prog (\<not> ex) (emit (Makedirs path)))"

definition rm_cmake_cache :: "string \<Rightarrow> unit prog" where
  "rm_cmake_cache d = emit (RmCmakeCache d)"

section \<open>The build engine: \<open>invoke_cmake\<close>\<close>

definition cmake_flags :: "host \<Rightarrow> dict \<Rightarrow> string \<Rightarrow> string list" where
  "cmake_flags h defines cmake_path =
     [''-G'', ''Ninja''] @ [''-DCMAKE_PREFIX_PATH='' @ cmake_prebuilt_bin_dir h]
       @ map (\<lambda>(key, v). ''-D'' @ key @ ''='' @ v) defines @ [cmake_path]"

definition invoke_cmake ::
  "host \<Rightarrow> world \<Rightarrow> string \<Rightarrow> dict \<Rightarrow> dict \<Rightarrow> string \<Rightarrow> string option \<Rightarrow> bool \<Rightarrow> unit prog" where
  "invoke_cmake h orc outp defines env cmake_path target install =
     (let flags = cmake_flags h defines cmake_path;
          ninja_target = (case target of None \<Rightarrow> [] | Some tg \<Rightarrow> if tg = [] then [] else [tg])
      in seq
           [check_create_path orc outp,
            check_call orc
              \<lparr>argv = [cmake_bin_path h] @ flags, cwd = Some outp, cmd_env = Some env\<rparr>,
            check_call orc
              \<lparr>argv = [ninja_bin_path h] @ ninja_target, cwd = Some outp, cmd_env = Some env\<rparr>,
            when_prog install
              (check_call orc
                 \<lparr>argv = [ninja_bin_path h, ''install''], cwd = Some outp,
                  cmd_env = Some env\<rparr>)])"

section \<open>Compiler builds: \<open>build_llvm\<close>, stage 1, stage 2, Windows\<close>

text \<open>
  A run of assignments \<open>d[k1] = v1; d[k2] = v2; ...\<close> is \<open>dict_update d [(k1, v1), (k2, v2), ...]\<close>,
  which performs them in that order.
\<close>

definition build_llvm_defines ::
  "host \<Rightarrow> string \<Rightarrow> string \<Rightarrow> string \<Rightarrow> dict option \<Rightarrow> dict" where
  "build_llvm_defines h targets install_dir build_name extra_defines =
     (let cmake_defines =
            dict_update (base_cmake_defines h)
              [(''CMAKE_INSTALL_PREFIX'', install_dir),
               (''LLVM_TARGETS_TO_BUILD'', targets),
               (''LLVM_BUILD_LLVM_DYLIB'', ''ON''),
               (''CLANG_VENDOR'',
                ''Android ('' @ build_name @ '' based on '' @ svn_revision h @ '') ''),
               (''LLVM_BINUTILS_INCDIR'',
                android_path h [''toolchain/binutils/binutils-2.27/include''])]
      in case extra_defines of
           None \<Rightarrow> cmake_defines
         | Some extra \<Rightarrow> dict_update cmake_defines extra)"

definition build_llvm ::
  "host \<Rightarrow> world \<Rightarrow> string \<Rightarrow> string \<Rightarrow> string \<Rightarrow> string \<Rightarrow> dict option \<Rightarrow> dict option
     \<Rightarrow> unit prog" where
  "build_llvm h orc targets build_dir install_dir build_name extra_defines extra_env =
     (let cmake_defines = build_llvm_defines h targets install_dir build_name extra_defines;
          env = (case extra_env of
                   None \<Rightarrow> ORIG_ENV h
                 | Some extra \<Rightarrow> dict_update (ORIG_ENV h) extra)
      in invoke_cmake h orc build_dir cmake_defines env (llvm_path h []) None True)"

definition STAGE2_TARGETS :: string where
  "STAGE2_TARGETS = ''AArch64;ARM;BPF;Mips;X86''"

definition stage1_extra_defines :: "host \<Rightarrow> bool \<Rightarrow> dict" where
  "stage1_extra_defines h build_llvm_tools =
     (let ldflags = [''-Wl,-rpath,'' @ clang_prebuilt_lib_dir h]
      in dict_update []
           ([(''LLVM_BUILD_RUNTIME'', ''ON''),
             (''CLANG_ENABLE_ARCMT'', ''OFF''),
             (''CLANG_ENABLE_STATIC_ANALYZER'', ''OFF''),
             (''CMAKE_C_COMPILER'', path_join (clang_prebuilt_bin_dir h) [''clang'']),
             (''CMAKE_CXX_COMPILER'', path_join (clang_prebuilt_bin_dir h) [''clang++'']),
             (''LLVM_TOOL_CLANG_TOOLS_EXTRA_BUILD'', ''OFF''),
             (''LLVM_TOOL_OPENMP_BUILD'', ''OFF''),
             (''LLVM_BUILD_TOOLS'', if build_llvm_tools then ''ON'' else ''OFF''),
             (''LLVM_ENABLE_LIBCXX'', ''ON''),
             (''CMAKE_EXE_LINKER_FLAGS'', str_join '' '' ldflags),
             (''CMAKE_SHARED_LINKER_FLAGS'', str_join '' '' ldflags),
             (''CMAKE_MODULE_LINKER_FLAGS'', str_join '' '' ldflags)]
            @ (if host_is_linux h
               then [(''LIBCXX_ENABLE_ABI_LINKER_SCRIPT'', ''OFF''),
                     (''LIBCXX_ENABLE_STATIC_ABI_LIBRARY'', ''ON'')]
               else [])
            @ (if host_is_darwin h
               then [(''LLVM_BUILD_EXTERNAL_COMPILER_RT'', ''ON'')]
               else [])
            @ [(''COMPILER_RT_BUILD_LIBFUZZER'', ''OFF'')]))"

definition build_stage1 :: "host \<Rightarrow> world \<Rightarrow> string \<Rightarrow> string \<Rightarrow> bool \<Rightarrow> unit prog" where
  "build_stage1 h orc stage1_install build_name build_llvm_tools =
     build_llvm h orc ''X86'' (out_path h [''stage1'']) stage1_install build_name
       (Some (stage1_extra_defines h build_llvm_tools)) None"

text \<open>
  In \<open>build_stage2\<close> the dictionary of extra definitions is completed, or the
  \<open>RuntimeError\<close> raised, before \<open>build_llvm\<close> is called. \<open>if profdata_file:\<close> tests
  truthiness: \<open>None\<close> and the empty string both skip the branch.
\<close>

definition stage2_extra_defines ::
  "host \<Rightarrow> string \<Rightarrow> bool \<Rightarrow> bool \<Rightarrow> bool \<Rightarrow> bool \<Rightarrow> string option \<Rightarrow> error + dict" where
  "stage2_extra_defines h stage1_install use_lld enable_assertions debug_build
       build_instrumented profdata_file =
     (let stage2_cc = path_join stage1_install [''bin'', ''clang''];
          stage2_cxx = path_join stage1_install [''bin'', ''clang++''];
          d1 = dict_update []
                 ([(''CMAKE_C_COMPILER'', stage2_cc),
                   (''CMAKE_CXX_COMPILER'', stage2_cxx),
                   (''LLVM_BUILD_RUNTIME'', ''ON''),
                   (''LLVM_ENABLE_LIBCXX'', ''ON''),
                   (''SANITIZER_ALLOW_CXXABI'', ''OFF''),
                   (''COMPILER_RT_BUILD_LIBFUZZER'', ''OFF'')]
                  @ (if use_lld then [(''LLVM_ENABLE_LLD'', ''ON'')] else [])
                  @ (if enable_assertions then [(''LLVM_ENABLE_ASSERTIONS'', ''ON'')] else [])
                  @ (if debug_build then [(''CMAKE_BUILD_TYPE'', ''Debug'')] else [])
                  @ (if build_instrumented
                     then [(''LLVM_BUILD_INSTRUMENTED'', ''ON''),
                           (''LLVM_PROFDATA'',
                            path_join stage1_install [''bin'', ''llvm-profdata'']),
                           (''LLVM_ENABLE_LIBCXX'', ''OFF''),
                           (''LLVM_BUILD_RUNTIME'', ''OFF'')]
                     else []));
          tail = (if host_is_linux h
                  then [(''LIBCXX_ENABLE_STATIC_ABI_LIBRARY'', ''ON''),
                        (''LIBCXX_ENABLE_ABI_LINKER_SCRIPT'', ''OFF'')]
                  else [])
                 @ (if host_is_darwin h
                    then [(''LLVM_BUILD_EXTERNAL_COMPILER_RT'', ''ON'')]
                    else [])
      in case profdata_file of
           None \<Rightarrow> Inr (dict_update d1 tail)
         | Some pf \<Rightarrow>
             if pf = [] then Inr (dict_update d1 tail)
             else if build_instrumented
             then Inl (RuntimeError ''Cannot simultaneously instrument and use profiles'')
             else Inr (dict_update d1 ((''LLVM_PROFDATA_FILE'', pf) # tail)))"

definition build_stage2 ::
  "host \<Rightarrow> world \<Rightarrow> string \<Rightarrow> string \<Rightarrow> string \<Rightarrow> string \<Rightarrow> bool \<Rightarrow> bool \<Rightarrow> bool \<Rightarrow> bool
     \<Rightarrow> string option \<Rightarrow> unit prog" where
  "build_stage2 h orc stage1_install stage2_install stage2_targets build_name use_lld
       enable_assertions debug_build build_instrumented profdata_file =
     (case stage2_extra_defines h stage1_install use_lld enable_assertions debug_build
             build_instrumented profdata_file of
        Inl e \<Rightarrow> raise e
      | Inr extra \<Rightarrow>
          build_llvm h orc stage2_targets (out_path h [''stage2'']) stage2_install build_name
            (Some extra)
            (Some [(''LD_LIBRARY_PATH'', path_join stage1_install [''lib64''])]))"

definition build_llvm_for_windows ::
  "host \<Rightarrow> world \<Rightarrow> string \<Rightarrow> bool \<Rightarrow> string \<Rightarrow> string \<Rightarrow> string \<Rightarrow> string \<Rightarrow> bool
     \<Rightarrow> unit prog" where
  "build_llvm_for_windows h orc targets enable_assertions build_dir install_dir build_name
       native_clang_install is_32_bit =
     (let mingw_path = android_path h
            [''prebuilts'', ''gcc'', ''linux-x86'', ''host'', ''x86_64-w64-mingw32-4.8''];
          mingw_cc = path_join mingw_path [''bin'', ''x86_64-w64-mingw32-gcc''];
          mingw_cxx = path_join mingw_path [''bin'', ''x86_64-w64-mingw32-g++''];
          native_clang_cc = path_join native_clang_install [''bin'', ''clang''];
          native_clang_cxx = path_join native_clang_install [''bin'', ''clang++''];
          native_cmake_file_path = path_join build_dir [''NATIVE.cmake''];
          native_cmake_text =
            ''set(CMAKE_C_COMPILER '' @ native_clang_cc @ '')'' @ [CHR 0x0A]
              @ ''set(CMAKE_CXX_COMPILER '' @ native_clang_cxx @ '')'' @ [CHR 0x0A];
          cflags0 = [''-D_LARGEFILE_SOURCE'', ''-D_FILE_OFFSET_BITS=64''];
          cflags = (if is_32_bit then cflags0 @ [''-m32''] else cflags0);
          cxxflags = (if is_32_bit then cflags0 @ [''-m32''] else cflags0);
          ldflags0 = [''-Wl,--allow-multiple-definition''];
          ldflags = (if is_32_bit then ldflags0 @ [''-m32''] else ldflags0);
          windows_extra_defines = dict_update []
            ([(''CMAKE_C_COMPILER'', mingw_cc),
              (''CMAKE_CXX_COMPILER'', mingw_cxx),
              (''CMAKE_SYSTEM_NAME'', ''Windows''),
              (''LLVM_BUILD_RUNTIME'', ''OFF''),
              (''LLVM_TOOL_CLANG_TOOLS_EXTRA_BUILD'', ''ON''),
              (''LLVM_TOOL_OPENMP_BUILD'', ''OFF''),
              (''CROSS_TOOLCHAIN_FLAGS_NATIVE'',
               ''-DCMAKE_PREFIX_PATH='' @ cmake_prebuilt_bin_dir h @ '';''
                 @ ''-DCMAKE_TOOLCHAIN_FILE='' @ native_cmake_file_path)]
             @ (if enable_assertions then [(''LLVM_ENABLE_ASSERTIONS'', ''ON'')] else [])
             @ (if is_32_bit then [(''LLVM_LIBDIR_SUFFIX'', [])] else [])
             @ [(''CMAKE_C_FLAGS'', str_join '' '' cflags),
                (''CMAKE_CXX_FLAGS'', str_join '' '' cxxflags),
                (''CMAKE_EXE_LINKER_FLAGS'', str_join '' '' ldflags),
                (''CMAKE_SHARED_LINKER_FLAGS'', str_join '' '' ldflags),
                (''CMAKE_MODULE_LINKER_FLAGS'', str_join '' '' ldflags)])
      in seq
           [check_create_path orc build_dir,
            emit (WriteFile native_cmake_file_path native_cmake_text),
            build_llvm h orc targets build_dir install_dir build_name
              (Some windows_extra_defines) None])"

section \<open>Runtime fan-out\<close>

definition build_asan_test :: "world \<Rightarrow> string \<Rightarrow> unit prog" where
  "build_asan_test orc stage2_install =
     for_each [''aarch64'', ''arm'', ''i686'', ''mips'', ''mips64'']
       (\<lambda>arch.
          let asan_test_path = path_join stage2_install [''test'', arch, ''bin''];
              asan_test_bin_path = path_join asan_test_path [''asan_test'']
          in seq [check_create_path orc asan_test_path, emit (Touch asan_test_bin_path)])"

definition build_asan_map_files :: "string \<Rightarrow> version \<Rightarrow> unit prog" where
  "build_asan_map_files stage2_install clang_version =
     (let lib_dir = path_join stage2_install
            [clang_resource_dir (long_version clang_version) []]
      in for_each [''aarch64'', ''arm'', ''i686'', ''x86_64'', ''mips'', ''mips64'']
           (\<lambda>arch.
              let lib_file = path_join lib_dir [''libclang_rt.asan-'' @ arch @ ''-android.so''];
                  map_file =
                    path_join lib_dir [''libclang_rt.asan-'' @ arch @ ''-android.map.txt'']
              in emit (CreateMapFile lib_file map_file)))"

definition build_libcxx :: "host \<Rightarrow> world \<Rightarrow> string \<Rightarrow> version \<Rightarrow> unit prog" where
  "build_libcxx h orc stage2_install clang_version =
     for_each (cross_compile_configs h stage2_install False)
       (\<lambda>(arch, llvm_triple, defines, cflags).
          let libcxx_path = out_path h [''lib'', ''libcxx-'' @ arch];
              libcxx_defines = dict_update defines
                [(''CMAKE_C_FLAGS'', str_join '' '' cflags),
                 (''CMAKE_CXX_FLAGS'', str_join '' '' cflags),
                 (''CMAKE_BUILD_TYPE'', ''Release'')];
              libcxx_env = ORIG_ENV h;
              libcxx_cmake_path = llvm_path h [''projects'', ''libcxx''];
              install_subdir = clang_resource_dir (long_version clang_version)
                                 (arch_from_triple llvm_triple);
              libcxx_install = path_join stage2_install [install_subdir];
              libcxx_libs = path_join libcxx_path [''lib'']
          in seq
               [emit (Log Info ''Building libcxx for %s'' [arch]),
                rm_cmake_cache libcxx_path,
                invoke_cmake h orc libcxx_path libcxx_defines libcxx_env libcxx_cmake_path
                  None False,
                check_create_path orc libcxx_install,
                bind_prog (ask (\<lambda>t. listdir orc t libcxx_libs))
                  (\<lambda>fs. for_each (filter (\<lambda>f. startswith f ''libc++'') fs)
                     (\<lambda>f. emit (Copy2 (path_join libcxx_libs [f]) libcxx_install)))])"

definition crt_defines_of ::
  "host \<Rightarrow> string \<Rightarrow> version \<Rightarrow> arch_config \<Rightarrow> dict" where
  "crt_defines_of h stage2_install clang_version c =
     (case c of (arch, llvm_triple, defines, cflags0) \<Rightarrow>
      let llvm_config = path_join stage2_install [''bin'', ''llvm-config''];
          crt_install = path_join stage2_install
                          [''lib64'', ''clang'', long_version clang_version];
          cflags = cflags0 @ [''-isystem '' @ support_headers h];
          crt_defines = dict_update defines
            [(''ANDROID'', ''1''),
             (''LLVM_CONFIG_PATH'', llvm_config),
             (''COMPILER_RT_INCLUDE_TESTS'', ''ON''),
             (''CMAKE_C_FLAGS'', str_join '' '' cflags),
             (''CMAKE_ASM_FLAGS'', str_join '' '' cflags),
             (''CMAKE_CXX_FLAGS'', str_join '' '' cflags),
             (''COMPILER_RT_TEST_COMPILER_CFLAGS'', str_join '' '' cflags),
             (''COMPILER_RT_TEST_TARGET_TRIPLE'', llvm_triple),
             (''COMPILER_RT_INCLUDE_TESTS'', ''OFF''),
             (''CMAKE_INSTALL_PREFIX'', crt_install),
             (''COMPILER_RT_BUILD_LIBFUZZER'', ''OFF''),
             (''SANITIZER_CXX_ABI'', ''libcxxabi''),
             (''SANITIZER_COMMON_LINK_LIBS'',
              if arch = ''arm'' then ''-latomic -landroid_support''
              else ''-landroid_support'')]
      in dict_update crt_defines (base_cmake_defines h))"

definition build_crts :: "host \<Rightarrow> world \<Rightarrow> string \<Rightarrow> version \<Rightarrow> unit prog" where
  "build_crts h orc stage2_install clang_version =
     for_each (cross_compile_configs h stage2_install False)
       (\<lambda>c. case c of (arch, llvm_triple, defines, cflags) \<Rightarrow>
          let crt_path = out_path h [''lib'', ''clangrt-'' @ arch];
              crt_defines = crt_defines_of h stage2_install clang_version c;
              crt_env = ORIG_ENV h;
              crt_cmake_path = llvm_path h [''projects'', ''compiler-rt'']
          in seq
               [emit (Log Info ''Building compiler-rt for %s'' [arch]),
                rm_cmake_cache crt_path,
                invoke_cmake h orc crt_path crt_defines crt_env crt_cmake_path None True])"

definition str_of_bool :: "bool \<Rightarrow> string" where
  "str_of_bool b = (if b then ''True'' else ''False'')"

text \<open>
  \<open>libfuzzer_static_lib\<close> and \<open>runtime_lib_dir\<close> are the source and the destination
  directory of the manual install at the end of the loop body of \<open>build_libfuzzers\<close>;
  \<open>build_libomp\<close> computes its destination directory the same way.
\<close>

definition libfuzzer_static_lib :: "host \<Rightarrow> bool \<Rightarrow> string \<Rightarrow> string" where
  "libfuzzer_static_lib h ndk_cxx arch =
     (let libfuzzer_path0 = out_path h [''lib'', ''libfuzzer-'' @ arch];
          libfuzzer_path = (if ndk_cxx then libfuzzer_path0 @ ''-ndk-cxx'' else libfuzzer_path0);
          sarch = (if arch = ''i386'' then ''i686'' else arch);
          static_lib_filename = ''libclang_rt.fuzzer-'' @ sarch @ ''-android.a''
      in path_join libfuzzer_path [''lib'', ''linux'', static_lib_filename])"

definition runtime_lib_dir :: "string \<Rightarrow> version \<Rightarrow> bool \<Rightarrow> string \<Rightarrow> string" where
  "runtime_lib_dir stage2_install clang_version ndk_cxx llvm_triple =
     (let triple_arch = arch_from_triple llvm_triple;
          lib_subdir =
            (if ndk_cxx then path_join ''runtimes_ndk_cxx'' [triple_arch]
             else clang_resource_dir (long_version clang_version) triple_arch)
      in path_join stage2_install [lib_subdir])"

definition build_libfuzzers :: "host \<Rightarrow> world \<Rightarrow> string \<Rightarrow> version \<Rightarrow> bool \<Rightarrow> unit prog" where
  "build_libfuzzers h orc stage2_install clang_version ndk_cxx =
     (let llvm_config = path_join stage2_install [''bin'', ''llvm-config''];
          header_src = llvm_path h [''projects'', ''compiler-rt'', ''lib'', ''fuzzer''];
          header_dst = path_join stage2_install [''prebuilt_include'', ''llvm'', ''lib'', ''Fuzzer'']
      in seq
           [for_each (cross_compile_configs h stage2_install (\<not> ndk_cxx))
              (\<lambda>(arch, llvm_triple, defines, cflags0).
                 let libfuzzer_path0 = out_path h [''lib'', ''libfuzzer-'' @ arch];
                     libfuzzer_path =
                       (if ndk_cxx then libfuzzer_path0 @ ''-ndk-cxx'' else libfuzzer_path0);
                     cflags = cflags0 @ map (\<lambda>d. ''-isystem '' @ d) (libcxx_header_dirs h ndk_cxx);
                     libfuzzer_defines = dict_update defines
                       [(''ANDROID'', ''1''),
                        (''LLVM_CONFIG_PATH'', llvm_config),
                        (''CMAKE_C_FLAGS'', str_join '' '' cflags),
                        (''CMAKE_CXX_FLAGS'', str_join '' '' cflags),
                        (''CMAKE_POLICY_DEFAULT_CMP0056'', ''NEW'')];
                     libfuzzer_cmake_path = llvm_path h [''projects'', ''compiler-rt''];
                     libfuzzer_env = ORIG_ENV h;
                     static_lib = libfuzzer_static_lib h ndk_cxx arch;
                     lib_dir = runtime_lib_dir stage2_install clang_version ndk_cxx llvm_triple
                 in seq
                      [emit (Log Info ''Building libfuzzer for %s (ndk_cxx? %s)''
                               [arch, str_of_bool ndk_cxx]),
                       rm_cmake_cache libfuzzer_path,
                       invoke_cmake h orc libfuzzer_path libfuzzer_defines libfuzzer_env
                         libfuzzer_cmake_path (Some ''fuzzer'') False,
                       check_create_path orc lib_dir,
                       emit (Copy2 static_lib (path_join lib_dir [''libFuzzer.a'']))]),
            check_create_path orc header_dst,
            bind_prog (ask (\<lambda>t. listdir orc t header_src))
              (\<lambda>fs. for_each (filter (\<lambda>f. endswith f ''.h'' \<or> endswith f ''.def'') fs)
                 (\<lambda>f. emit (Copy2 (path_join header_src [f]) header_dst)))])"

definition build_libomp :: "host \<Rightarrow> world \<Rightarrow> string \<Rightarrow> version \<Rightarrow> bool \<Rightarrow> unit prog" where
  "build_libomp h orc stage2_install clang_version ndk_cxx =
     for_each (cross_compile_configs h stage2_install (\<not> ndk_cxx))
       (\<lambda>(arch, llvm_triple, defines, cflags0).
          let cflags = cflags0 @ map (\<lambda>d. ''-isystem '' @ d) (libcxx_header_dirs h ndk_cxx);
              libomp_path0 = out_path h [''lib'', ''libomp-'' @ arch];
              libomp_path = (if ndk_cxx then libomp_path0 @ ''-ndk-cxx'' else libomp_path0);
              libomp_defines = dict_update defines
                [(''ANDROID'', ''1''),
                 (''CMAKE_BUILD_TYPE'', ''Release''),
                 (''CMAKE_C_FLAGS'', str_join '' '' cflags),
                 (''CMAKE_CXX_FLAGS'', str_join '' '' cflags),
                 (''LIBOMP_ENABLE_SHARED'', ''FALSE''),
                 (''CMAKE_POLICY_DEFAULT_CMP0056'', ''NEW'')];
              libomp_cmake_path = llvm_path h [''projects'', ''openmp'', ''runtime''];
              libomp_env = ORIG_ENV h;
              static_lib = path_join libomp_path [''src'', ''libomp.a''];
              lib_dir = runtime_lib_dir stage2_install clang_version ndk_cxx llvm_triple
          in seq
               [emit (Log Info ''Building libomp for %s (ndk_cxx? %s)''
                        [arch, str_of_bool ndk_cxx]),
                rm_cmake_cache libomp_path,
                invoke_cmake h orc libomp_path libomp_defines libomp_env libomp_cmake_path
                  None False,
                check_create_path orc lib_dir,
                emit (Copy2 static_lib (path_join lib_dir [''libomp.a'']))])"

definition build_crts_host_i686 :: "host \<Rightarrow> world \<Rightarrow> string \<Rightarrow> version \<Rightarrow> unit prog" where
  "build_crts_host_i686 h orc stage2_install clang_version =
     (let llvm_config = path_join stage2_install [''bin'', ''llvm-config''];
          crt_install = path_join stage2_install
                          [''lib64'', ''clang'', long_version clang_version];
          crt_cmake_path = llvm_path h [''projects'', ''compiler-rt''];
          cflags = [''--target=i386-linux-gnu'', ''-march=i686''];
          crt_defines = dict_update (base_cmake_defines h)
            [(''CMAKE_C_COMPILER'', path_join stage2_install [''bin'', ''clang'']),
             (''CMAKE_CXX_COMPILER'', path_join stage2_install [''bin'', ''clang++'']),
             (''COMPILER_RT_DEFAULT_TARGET_ONLY'', ''ON''),
             (''CMAKE_C_COMPILER_TARGET'', ''i386-linux-gnu''),
             (''CMAKE_C_FLAGS'', str_join '' '' cflags),
             (''CMAKE_CXX_FLAGS'', str_join '' '' cflags),
             (''LLVM_CONFIG_PATH'', llvm_config),
             (''COMPILER_RT_INCLUDE_TESTS'', ''ON''),
             (''COMPILER_RT_ENABLE_WERROR'', ''ON''),
             (''CMAKE_INSTALL_PREFIX'', crt_install),
             (''SANITIZER_CXX_ABI'', ''libstdc++''),
             (''COMPILER_RT_BUILD_LIBFUZZER'', ''OFF'')];
          crt_env = ORIG_ENV h;
          crt_path = out_path h [''lib'', ''clangrt-i386-host'']
      in seq
           [rm_cmake_cache crt_path,
            invoke_cmake h orc crt_path crt_defines crt_env crt_cmake_path None True])"

text \<open>
  In \<open>build_runtimes\<close> the call \<open>build_libcxx(stage2_install, version)\<close> is commented
  out in the source (with a reference to bug 64037266); nothing stands in its place.
\<close>

definition build_runtimes :: "host \<Rightarrow> world \<Rightarrow> string \<Rightarrow> unit prog" where
  "build_runtimes h orc stage2_install =
     bind_prog (extract_clang_version orc stage2_install)
       (\<lambda>version.
          seq [build_crts h orc stage2_install version,
               build_crts_host_i686 h orc stage2_install version,
               build_libfuzzers h orc stage2_install version False,
               build_libfuzzers h orc stage2_install version True,
               build_libomp h orc stage2_install version False,
               build_libomp h orc stage2_install version True,
               build_asan_test orc stage2_install,
               build_asan_map_files stage2_install version])"

section \<open>SONAME normalisation: \<open>normalize_llvm_host_libs\<close>\<close>

text \<open>
  The library directory \<open>install_dir/lib64\<close> is modelled as a flat directory: an
  association list from entry names to nodes, a node being a regular file or a
  symbolic link with its target. A target is read as the name of an entry of the same
  directory; any other target is dangling. Every path the function handles is
  \<open>os.path.join(libdir, name)\<close>, so files are identified by their names.
  \<open>os.path.isfile\<close> follows symbolic links (at most 40, as Linux does),
  \<open>os.path.islink\<close> does not. \<open>shutil.move\<close> onto an existing symbolic link is
  \<open>os.rename\<close>: the link is replaced by the moved node.
\<close>

fun resolve :: "nat \<Rightarrow> dir \<Rightarrow> string \<Rightarrow> node option" where
  "resolve 0 d n = None"
| "resolve (Suc k) d n =
     (case map_of d n of
        None \<Rightarrow> None
      | Some Reg \<Rightarrow> Some Reg
      | Some (Link target) \<Rightarrow> resolve k d target)"

definition isfile :: "dir \<Rightarrow> string \<Rightarrow> bool" where
  "isfile d n = (resolve 41 d n = Some Reg)"

definition islink :: "dir \<Rightarrow> string \<Rightarrow> bool" where
  "islink d n = (case map_of d n of Some (Link target) \<Rightarrow> True | _ \<Rightarrow> False)"

definition move :: "string \<Rightarrow> string \<Rightarrow> dir \<Rightarrow> dir" where
  "move src dst d =
     (if src = dst then d
      else case map_of d src of
             None \<Rightarrow> d
           | Some n \<Rightarrow> (dst, n) # filter (\<lambda>(k, _). k \<noteq> src \<and> k \<noteq> dst) d)"

definition os_remove :: "string \<Rightarrow> dir \<Rightarrow> dir" where
  "os_remove n d = filter (\<lambda>(k, _). k \<noteq> n) d"

definition os_listdir :: "dir \<Rightarrow> string list" where
  "os_listdir d = map fst d"

text \<open>
  A format template such as \<open>libLLVM-{version}svn.so\<close> is a list of literal pieces and
  occurrences of the field \<open>{version}\<close>.
\<close>

datatype piece = Lit string | Field

definition format_version :: "piece list \<Rightarrow> string \<Rightarrow> string" where
  "format_version tmpl v = concat (map (\<lambda>p. case p of Lit s \<Rightarrow> s | Field \<Rightarrow> v) tmpl)"

definition libs :: "string \<Rightarrow> (string \<times> piece list) list" where
  "libs host_name =
     (if host_name = ''linux-x86''
      then [(''libLLVM'', [Lit ''libLLVM-'', Field, Lit ''svn.so'']),
            (''libclang'', [Lit ''libclang.so.'', Field]),
            (''libc++'', [Lit ''libc++.so.'', Field]),
            (''libc++abi'', [Lit ''libc++abi.so.'', Field])]
      else [(''libc++'', [Lit ''libc++.'', Field, Lit ''.dylib'']),
            (''libc++abi'', [Lit ''libc++abi.'', Field, Lit ''.dylib''])])"

definition getVersions :: "version \<Rightarrow> string \<Rightarrow> string \<times> string" where
  "getVersions v libname =
     (if \<not> startswith libname ''libc++'' then (short_version v, major v)
      else (''1.0'', ''1''))"

definition real_lib_name :: "version \<Rightarrow> string \<times> piece list \<Rightarrow> string" where
  "real_lib_name v l = format_version (snd l) (fst (getVersions v (fst l)))"

definition soname_lib_name :: "version \<Rightarrow> string \<times> piece list \<Rightarrow> string" where
  "soname_lib_name v l = format_version (snd l) (snd (getVersions v (fst l)))"

definition has_stem :: "string \<Rightarrow> string \<Rightarrow> bool" where
  "has_stem libname lib = (startswith lib (libname @ ''.'') \<or> startswith lib (libname @ ''-''))"

definition retain_only :: "string \<Rightarrow> string \<Rightarrow> dir \<Rightarrow> dir" where
  "retain_only libname soname_lib d =
     (let all_libs = filter (has_stem libname) (os_listdir d)
      in fold (\<lambda>lib d'. if lib \<noteq> soname_lib then os_remove lib d' else d') all_libs d)"

text \<open>
  \<open>normalize_lib\<close> is the body of the loop over the table. The result pairs the
  exception raised, if any, with the directory as it is at that moment.
\<close>

definition normalize_lib ::
  "string \<Rightarrow> version \<Rightarrow> string \<times> piece list \<Rightarrow> dir \<Rightarrow> error option \<times> dir" where
  "normalize_lib libdir v l d =
     (let libname = fst l;
          real_lib = real_lib_name v l;
          soname_lib = soname_lib_name v l
      in if libname = ''libLLVM'' then (None, retain_only libname real_lib d)
         else if \<not> isfile d real_lib
         then (Some (RuntimeError (path_join libdir [real_lib] @ '' must be a regular file'')), d)
         else if \<not> islink d soname_lib
         then (Some (RuntimeError (path_join libdir [soname_lib] @ '' must be a symlink'')), d)
         else (None, retain_only libname soname_lib (move real_lib soname_lib d)))"

fun normalize_loop ::
  "string \<Rightarrow> version \<Rightarrow> (string \<times> piece list) list \<Rightarrow> dir \<Rightarrow> error option \<times> dir" where
  "normalize_loop libdir v [] d = (None, d)"
| "normalize_loop libdir v (l # ls) d =
     (case normalize_lib libdir v l d of
        (Some e, d') \<Rightarrow> (Some e, d')
      | (None, d') \<Rightarrow> normalize_loop libdir v ls d')"

text \<open>
  The source iterates with \<open>libs.iteritems()\<close>, in the order of a Python 2 dict. The
  model iterates in the order of the dict literal; the properties below are proved for
  every order of iteration.
\<close>

definition normalize_llvm_host_libs ::
  "string \<Rightarrow> string \<Rightarrow> version \<Rightarrow> dir \<Rightarrow> error option \<times> dir" where
  "normalize_llvm_host_libs install_dir host_name v d =
     normalize_loop (path_join install_dir [''lib64'']) v (libs host_name) d"

section \<open>Packaging\<close>

definition install_wrappers :: "host \<Rightarrow> world \<Rightarrow> string \<Rightarrow> unit prog" where
  "install_wrappers h orc llvm_install_path =
     (let wrapper_path = llvm_path h [''android'', ''compiler_wrapper.py''];
          bisect_path = llvm_path h [''android'', ''bisect_driver.py''];
          bin_path = path_join llvm_install_path [''bin''];
          clang_path = path_join bin_path [''clang''];
          clangxx_path = path_join bin_path [''clang++''];
          clang_tidy_path = path_join bin_path [''clang-tidy'']
      in seq
           [bind_prog (ask (\<lambda>t. path_exists orc t (clang_path @ ''.real'')))
              (\<lambda>ex. when_prog (\<not> ex) (emit (Move clang_path (clang_path @ ''.real'')))),
            bind_prog (ask (\<lambda>t. path_exists orc t (clang_tidy_path @ ''.real'')))
              (\<lambda>ex. when_prog (\<not> ex)
                 (emit (Move clang_tidy_path (clang_tidy_path @ ''.real'')))),
            emit (UtilsRemove clang_path),
            emit (UtilsRemove clangxx_path),
            emit (UtilsRemove clang_tidy_path),
            emit (UtilsRemove (clangxx_path @ ''.real'')),
            emit (Symlink ''clang.real'' (clangxx_path @ ''.real'')),
            emit (Copy2 wrapper_path clang_path),
            emit (Copy2 wrapper_path clangxx_path),
            emit (Copy2 wrapper_path clang_tidy_path),
            install_file bisect_path bin_path])"

definition normalize_step :: "world \<Rightarrow> string \<Rightarrow> string \<Rightarrow> version \<Rightarrow> unit prog" where
  "normalize_step orc install_dir host_name v =
     bind_prog (ask (\<lambda>t. lib64_of orc t (path_join install_dir [''lib64''])))
       (\<lambda>d. case normalize_llvm_host_libs install_dir host_name v d of
          (r, d') \<Rightarrow>
            seq [emit (NormalizedLibs (path_join install_dir [''lib64'']) d'),
                 case r of None \<Rightarrow> return_prog () | Some e \<Rightarrow> raise e])"

definition install_license_files :: "host \<Rightarrow> world \<Rightarrow> string \<Rightarrow> unit prog" where
  "install_license_files h orc install_dir =
     (let projects =
            [''llvm'', ''llvm/projects/compiler-rt'', ''llvm/projects/libcxx'',
             ''llvm/projects/libcxxabi'', ''llvm/projects/openmp'', ''llvm/tools/clang'',
             ''llvm/tools/clang/tools/extra'', ''llvm/tools/lld''];
          toolchain_path = android_path h [''toolchain''];
          llvm_android_path = path_join toolchain_path [''llvm'', ''android''];
          license_pattern = path_join llvm_android_path [''MODULE_LICENSE_*'']
      in seq
           [bind_prog (ask (\<lambda>t. glob_files orc t license_pattern))
              (\<lambda>fs. for_each fs (\<lambda>license_file. install_file license_file install_dir)),
            bind_prog
              (ask (\<lambda>t. concat (map (\<lambda>project.
                      map (read_text orc t)
                        (glob_files orc t
                           (path_join (path_join toolchain_path [project]) [''LICENSE.*''])))
                    projects)))
              (\<lambda>notices. emit (WriteFile (path_join install_dir [''NOTICE''])
                                 (str_join [CHR 0x0A] notices)))])"

definition install_winpthreads :: "host \<Rightarrow> bool \<Rightarrow> string \<Rightarrow> unit prog" where
  "install_winpthreads h is_windows32 install_dir =
     (let lib_name = ''libwinpthread-1.dll'';
          mingw_dir = android_path h
            [''prebuilts/gcc/linux-x86/host/x86_64-w64-mingw32-4.8'', ''x86_64-w64-mingw32''];
          pthread_dir = (if is_windows32 then ''lib32'' else ''bin'');
          lib_path = path_join mingw_dir [pthread_dir, lib_name];
          lib_install = path_join install_dir [''bin'', lib_name]
      in install_file lib_path lib_install)"

definition remove_static_libraries :: "world \<Rightarrow> string \<Rightarrow> unit prog" where
  "remove_static_libraries orc static_lib_dir =
     bind_prog (ask (\<lambda>t. path_isdir orc t static_lib_dir))
       (\<lambda>isd. when_prog isd
          (bind_prog (ask (\<lambda>t. listdir orc t static_lib_dir))
             (\<lambda>lib_files. for_each (filter (\<lambda>f. endswith f ''.a'') lib_files)
                (\<lambda>lib_file. remove (path_join static_lib_dir [lib_file])))))"

definition necessary_bin_files :: "version \<Rightarrow> string \<Rightarrow> string \<Rightarrow> string list" where
  "necessary_bin_files v ext shlib_ext =
     [''clang'' @ ext, ''clang++'' @ ext, ''clang-'' @ short_version v @ ext,
      ''clang-format'' @ ext, ''clang-tidy'' @ ext, ''git-clang-format'',
      ''ld.lld'' @ ext, ''ld64.lld'' @ ext, ''lld'' @ ext, ''lld-link'' @ ext,
      ''llvm-ar'' @ ext, ''llvm-as'' @ ext, ''llvm-cov'' @ ext, ''llvm-dis'' @ ext,
      ''llvm-link'' @ ext, ''llvm-modextract'' @ ext, ''llvm-nm'' @ ext,
      ''llvm-profdata'' @ ext, ''llvm-readobj'' @ ext, ''llvm-symbolizer'' @ ext,
      ''sancov'' @ ext, ''sanstats'' @ ext, ''scan-build'' @ ext, ''scan-view'' @ ext,
      ''LLVMgold'' @ shlib_ext]"

definition script_bins :: "string list" where
  "script_bins = [''git-clang-format'', ''scan-build'', ''scan-view'']"

definition package_toolchain ::
  "host \<Rightarrow> world \<Rightarrow> string \<Rightarrow> string \<Rightarrow> string \<Rightarrow> string \<Rightarrow> bool \<Rightarrow> unit prog" where
  "package_toolchain h orc build_dir build_name host_name dist_dir strip =
     (let is_windows32 = (host_name = ''windows-i386'');
          is_windows64 = (host_name = ''windows-x86'');
          is_windows = (is_windows32 \<or> is_windows64);
          is_linux = (host_name = ''linux-x86'');
          package_name = ''clang-'' @ build_name;
          install_host_dir = out_path h [''install'', host_name];
          install_dir = path_join install_host_dir [package_name];
          ext = (if is_windows then ''.exe'' else []);
          shlib_ext = (if is_windows then ''.dll'' else if is_linux then ''.so'' else ''.dylib'');
          bin_dir = path_join install_dir [''bin''];
          lib_dir = (if is_windows32 then ''lib'' else ''lib64'');
          stdatomic_path = android_path h [''bionic'', ''libc'', ''include'', ''stdatomic.h''];
          resdir_top = path_join install_dir [lib_dir, ''clang''];
          version_file_path = path_join install_dir [''AndroidVersion.txt''];
          tarball_name = package_name @ ''-'' @ host_name;
          package_path = path_join dist_dir [tarball_name] @ ''.tar.bz2''
      in bind_prog (extract_clang_version orc build_dir)
           (\<lambda>v. seq
              [bind_prog (ask (\<lambda>t. path_exists orc t install_host_dir))
                 (\<lambda>ex. when_prog ex (emit (RmTree install_host_dir))),
               emit (CopyTree build_dir install_dir),
               bind_prog (ask (\<lambda>t. listdir orc t bin_dir))
                 (\<lambda>bin_files. for_each bin_files
                    (\<lambda>bin_filename.
                       let binary = path_join bin_dir [bin_filename]
                       in bind_prog (ask (\<lambda>t. path_isfile orc t binary))
                            (\<lambda>isf. when_prog isf
                               (if bin_filename \<notin> set (necessary_bin_files v ext shlib_ext)
                                then remove binary
                                else when_prog strip
                                       (when_prog (bin_filename \<notin> set script_bins)
                                          (check_call orc
                                             \<lparr>argv = [''strip'', binary], cwd = None,
                                              cmd_env = None\<rparr>)))))),
               remove_static_libraries orc (path_join install_dir [lib_dir]),
               when_prog is_windows (install_winpthreads h is_windows32 install_dir),
               when_prog (\<not> is_windows)
                 (seq [install_wrappers h orc install_dir,
                       normalize_step orc install_dir host_name v]),
               install_file stdatomic_path
                 (path_join resdir_top [long_version v, ''include'']),
               install_license_files h orc install_dir,
               emit (WriteFile version_file_path
                       (long_version v @ [CHR 0x0A] @ ''based on '' @ svn_revision h
                          @ [CHR 0x0A])),
               emit (Log Info ''Packaging %s'' [package_path]),
               check_call orc
                 \<lparr>argv = [''tar'', ''-cjC'', install_host_dir, ''-f'', package_path,
                          package_name],
                  cwd = None, cmd_env = None\<rparr>]))"

section \<open>The pipeline: \<open>main\<close>\<close>

text \<open>
  \<open>args\<close> is the namespace returned by \<open>parse_args\<close>; the parser rejects
  \<open>--skip-build\<close> together with \<open>--skip-package\<close>. \<open>build_stages\<close> is the part of the
  first \<open>if do_build:\<close> block of \<open>main\<close> that follows the removal of old install
  directories: stage 1, the profile lookup and stage 2. Setting up the logging level
  has no effect on the trace and is left out.
\<close>

record args =
  arg_verbose :: nat
  arg_build_name :: string
  arg_use_lld :: bool
  arg_enable_assertions :: bool
  arg_debug :: bool
  arg_build_instrumented :: bool
  arg_skip_build :: bool
  arg_skip_package :: bool
  arg_no_strip :: bool
  arg_no_build_windows :: bool
  arg_check_pgo_profile :: bool

definition build_stages :: "host \<Rightarrow> world \<Rightarrow> args \<Rightarrow> unit prog" where
  "build_stages h orc a =
     (let stage1_install = out_path h [''stage1-install''];
          stage2_install = out_path h [''stage2-install''];
          instrumented = (host_is_linux h \<and> arg_build_instrumented a)
      in seq
           [build_stage1 h orc stage1_install (arg_build_name a) instrumented,
            bind_prog (extract_clang_long_version orc stage1_install)
              (\<lambda>long_version.
                 bind_prog (pgo_profdata_file h orc long_version)
                   (\<lambda>profdata.
                      if profdata = None \<and> arg_check_pgo_profile a
                      then raise (RuntimeError
                                    (''Profdata file does not exist for '' @ long_version))
                      else build_stage2 h orc stage1_install stage2_install STAGE2_TARGETS
                             (arg_build_name a) (arg_use_lld a) (arg_enable_assertions a)
                             (arg_debug a) instrumented profdata))])"

definition main :: "host \<Rightarrow> world \<Rightarrow> args \<Rightarrow> unit prog" where
  "main h orc a =
     (let do_build = (\<not> arg_skip_build a);
          do_package = (\<not> arg_skip_package a);
          do_strip = (\<not> arg_no_strip a);
          do_strip_host_package = (do_strip \<and> \<not> arg_debug a);
          need_windows = (host_is_linux h \<and> \<not> arg_no_build_windows a);
          stage2_install = out_path h [''stage2-install''];
          windows32_install = out_path h [''windows-i386-install''];
          windows64_install = out_path h [''windows-x86-install''];
          dist_dir = (case map_of (ORIG_ENV h) ''DIST_DIR'' of
                        Some d \<Rightarrow> d
                      | None \<Rightarrow> out_path h [])
      in seq
           [when_prog do_build
              (seq [for_each [stage2_install, windows32_install, windows64_install]
                      (\<lambda>install_dir.
                         bind_prog (ask (\<lambda>t. path_exists orc t install_dir))
                           (\<lambda>ex. when_prog ex (emit (RmTree install_dir)))),
                    build_stages h orc a]),
            when_prog (do_build \<and> host_is_linux h) (build_runtimes h orc stage2_install),
            when_prog (do_build \<and> need_windows)
              (seq [build_llvm_for_windows h orc STAGE2_TARGETS (arg_enable_assertions a)
                      (out_path h [''windows-x86'']) windows64_install (arg_build_name a)
                      stage2_install False,
                    build_llvm_for_windows h orc STAGE2_TARGETS (arg_enable_assertions a)
                      (out_path h [''windows-i386'']) windows32_install (arg_build_name a)
                      stage2_install True]),
            when_prog do_package
              (seq [package_toolchain h orc stage2_install (arg_build_name a)
                      (build_os_type h) dist_dir do_strip_host_package,
                    when_prog need_windows
                      (seq [package_toolchain h orc windows32_install (arg_build_name a)
                              ''windows-i386'' dist_dir do_strip,
                            package_toolchain h orc windows64_install (arg_build_name a)
                              ''windows-x86'' dist_dir do_strip])])])"

text \<open>
  The process exit status: an exception that leaves \<open>main\<close> ends the interpreter with
  status 1, a normal return with status 0.
\<close>

definition exit_status :: "(error + unit) \<times> trace \<Rightarrow> nat" where
  "exit_status r = (case fst r of Inl e \<Rightarrow> 1 | Inr u \<Rightarrow> 0)"

section \<open>Reading a trace\<close>

text \<open>
  \<open>calls_of\<close> lists the subprocesses of a trace, \<open>notes_of\<close> the log records other
  than the one \<open>check_call\<close> writes for each subprocess, \<open>copies_of\<close> the files copied.
\<close>

definition calls_of :: "trace \<Rightarrow> cmd list" where
  "calls_of t = concat (map (\<lambda>e. case e of Call c \<Rightarrow> [c] | _ \<Rightarrow> []) t)"

definition notes_of :: "trace \<Rightarrow> (string \<times> string list) list" where
  "notes_of t =
     concat (map (\<lambda>e. case e of
                        Log l f xs \<Rightarrow> if f = ''check_call:%s %s'' then [] else [(f, xs)]
                      | _ \<Rightarrow> []) t)"

definition copies_of :: "trace \<Rightarrow> (string \<times> string) list" where
  "copies_of t = concat (map (\<lambda>e. case e of Copy2 src dst \<Rightarrow> [(src, dst)] | _ \<Rightarrow> []) t)"



section \<open>Engine failures along a trace\<close>

text \<open>
  \<open>calls_ok orc t\<close> says that every subprocess of the trace \<open>t\<close> exited with status 0,
  each judged by the engine against the events before it. \<open>fail_stop orc m\<close> is the
  discipline build.py follows, having no \<open>try\<close> statement: started from a trace
  without a failed subprocess, the program \<open>m\<close> only appends events, and it either
  returns with no failed subprocess, or raises a \<open>RuntimeError\<close> with no failed
  subprocess, or raises \<open>CalledProcessError\<close> for a failed subprocess that is the last
  event of the trace.
\<close>

fun calls_ok_from :: "world \<Rightarrow> trace \<Rightarrow> trace \<Rightarrow> bool" where
  "calls_ok_from orc pre [] = True"
| "calls_ok_from orc pre (e # t) =
     ((case e of Call c \<Rightarrow> engine orc pre c | _ \<Rightarrow> True) \<and> calls_ok_from orc (pre @ [e]) t)"

definition calls_ok :: "world \<Rightarrow> trace \<Rightarrow> bool" where
  "calls_ok orc t = calls_ok_from orc [] t"

definition fail_stop :: "world \<Rightarrow> 'a prog \<Rightarrow> bool" where
  "fail_stop orc m =
     (\<forall>t. calls_ok orc t \<longrightarrow>
        (\<exists>new. snd (m t) = t @ new
           \<and> (case fst (m t) of
                 Inr x \<Rightarrow> calls_ok orc (t @ new)
               | Inl e \<Rightarrow>
                   (\<exists>s. e = RuntimeError s \<and> calls_ok orc (t @ new))
                   \<or> (\<exists>pre c. new = pre @ [Call c] \<and> calls_ok orc (t @ pre)
                          \<and> \<not> engine orc (t @ pre) c \<and> e = CalledProcessError c))))"

definition example_args :: args where
  "example_args =
     \<lparr> arg_verbose = 0, arg_build_name = ''dev'', arg_use_lld = False,
       arg_enable_assertions = False, arg_debug = False, arg_build_instrumented = False,
       arg_skip_build = False, arg_skip_package = False, arg_no_strip = False,
       arg_no_build_windows = False, arg_check_pgo_profile = False \<rparr>"

section \<open>Verified properties\<close>

subsection \<open>Dictionaries\<close>















subsection \<open>Running programs\<close>

lemma calls_of_Nil [simp]: "calls_of [] = []"
  by (simp add: calls_of_def)

lemma calls_of_append [simp]: "calls_of (t @ u) = calls_of t @ calls_of u"
  by (simp add: calls_of_def)

lemma calls_of_Cons_Call [simp]: "calls_of (Call c # t) = c # calls_of t"
  by (simp add: calls_of_def)

lemma calls_of_Cons_Log [simp]: "calls_of (Log l f xs # t) = calls_of t"
  by (simp add: calls_of_def)

lemma calls_of_Cons_Makedirs [simp]: "calls_of (Makedirs p # t) = calls_of t"
  by (simp add: calls_of_def)

lemma seq_Cons_run:
  "seq (m # ms) t = (case m t of (Inl e, t') \<Rightarrow> (Inl e, t') | (Inr u, t') \<Rightarrow> seq ms t')"
  by (simp add: bind_prog_def)




subsection \<open>The configuration matrix\<close>

text \<open>
  C6. The generator \<open>cross_compile_configs\<close> yields one configuration for each of arm,
  aarch64, x86_64, i386, mips and mips64, in that order. In every configuration it
  yields, the three linker-flag definitions are the list \<open>ldflags\<close> of that
  architecture's table entry joined by blanks, and that list contains
  \<open>-Wl,--hash-style=both\<close> if and only if the architecture is neither mips nor mips64.
\<close>

theorem hash_style_flag_iff:
  "map fst (cross_compile_configs h stage2_install platform)
     = [''arm'', ''aarch64'', ''x86_64'', ''i386'', ''mips'', ''mips64'']
   \<and> (\<forall>c \<in> set (cross_compile_configs h stage2_install platform).
        \<exists>e \<in> set configs.
          (case c of (arch, triple, defines, cflags) \<Rightarrow>
             arch = fst e
             \<and> map_of defines ''CMAKE_EXE_LINKER_FLAGS''
                 = Some (str_join '' '' (cross_ldflags h platform e))
             \<and> map_of defines ''CMAKE_SHARED_LINKER_FLAGS''
                 = Some (str_join '' '' (cross_ldflags h platform e))
             \<and> map_of defines ''CMAKE_MODULE_LINKER_FLAGS''
                 = Some (str_join '' '' (cross_ldflags h platform e))
             \<and> (''-Wl,--hash-style=both'' \<in> set (cross_ldflags h platform e))
                 = (arch \<noteq> ''mips'' \<and> arch \<noteq> ''mips64'')))"
proof (intro conjI ballI)
  show "map fst (cross_compile_configs h stage2_install platform)
          = [''arm'', ''aarch64'', ''x86_64'', ''i386'', ''mips'', ''mips64'']"
    by (simp add: cross_compile_configs_def configs_def cross_compile_config_def Let_def)
next
  fix c
  assume "c \<in> set (cross_compile_configs h stage2_install platform)"
  then obtain e where e: "e \<in> set configs"
    and c: "c = cross_compile_config h stage2_install platform e"
    by (auto simp: cross_compile_configs_def)
  obtain a n tp tr x where t: "e = (a, n, tp, tr, x)"
    by (cases e) auto
  have flag: "(''-Wl,--hash-style=both'' \<in> set (cross_ldflags h platform e))
                = (a \<noteq> ''mips'' \<and> a \<noteq> ''mips64'')"
    unfolding t by (simp add: cross_ldflags_def Let_def)
  have "case c of (arch, triple, defines, cflags) \<Rightarrow>
          arch = fst e
          \<and> map_of defines ''CMAKE_EXE_LINKER_FLAGS''
              = Some (str_join '' '' (cross_ldflags h platform e))
          \<and> map_of defines ''CMAKE_SHARED_LINKER_FLAGS''
              = Some (str_join '' '' (cross_ldflags h platform e))
          \<and> map_of defines ''CMAKE_MODULE_LINKER_FLAGS''
              = Some (str_join '' '' (cross_ldflags h platform e))
          \<and> (''-Wl,--hash-style=both'' \<in> set (cross_ldflags h platform e))
              = (arch \<noteq> ''mips'' \<and> arch \<noteq> ''mips64'')"
    using flag by (simp add: c t cross_compile_config_def Let_def)
  with e show "\<exists>e \<in> set configs.
      (case c of (arch, triple, defines, cflags) \<Rightarrow>
         arch = fst e
         \<and> map_of defines ''CMAKE_EXE_LINKER_FLAGS''
             = Some (str_join '' '' (cross_ldflags h platform e))
         \<and> map_of defines ''CMAKE_SHARED_LINKER_FLAGS''
             = Some (str_join '' '' (cross_ldflags h platform e))
         \<and> map_of defines ''CMAKE_MODULE_LINKER_FLAGS''
             = Some (str_join '' '' (cross_ldflags h platform e))
         \<and> (''-Wl,--hash-style=both'' \<in> set (cross_ldflags h platform e))
             = (arch \<noteq> ''mips'' \<and> arch \<noteq> ''mips64''))"
    by blast
qed

theorem hash_style_flag_iff_witness:
  "(\<exists>c \<in> set (cross_compile_configs example_host ''/aosp/out/stage2-install'' False).
      fst c = ''mips''
      \<and> (\<exists>ldflags. map_of (fst (snd (snd c))) ''CMAKE_EXE_LINKER_FLAGS''
                       = Some (str_join '' '' ldflags)
                    \<and> ''-Wl,--hash-style=both'' \<notin> set ldflags))
   \<and> (\<exists>c \<in> set (cross_compile_configs example_host ''/aosp/out/stage2-install'' False).
      fst c = ''i386''
      \<and> (\<exists>ldflags. map_of (fst (snd (snd c))) ''CMAKE_EXE_LINKER_FLAGS''
                       = Some (str_join '' '' ldflags)
                    \<and> ''-Wl,--hash-style=both'' \<in> set ldflags))"
proof -
  let ?g = "cross_compile_configs example_host ''/aosp/out/stage2-install'' False"
  let ?Q = "\<lambda>c e. (case c of (arch, triple, defines, cflags) \<Rightarrow>
         arch = fst e
         \<and> map_of defines ''CMAKE_EXE_LINKER_FLAGS''
             = Some (str_join '' '' (cross_ldflags example_host False e))
         \<and> map_of defines ''CMAKE_SHARED_LINKER_FLAGS''
             = Some (str_join '' '' (cross_ldflags example_host False e))
         \<and> map_of defines ''CMAKE_MODULE_LINKER_FLAGS''
             = Some (str_join '' '' (cross_ldflags example_host False e))
         \<and> (''-Wl,--hash-style=both'' \<in> set (cross_ldflags example_host False e))
             = (arch \<noteq> ''mips'' \<and> arch \<noteq> ''mips64''))"
  have ball: "\<forall>c \<in> set ?g. \<exists>e \<in> set configs. ?Q c e"
    using hash_style_flag_iff [of example_host "''/aosp/out/stage2-install''" False]
    by (rule conjunct2)
  have ids: "map fst ?g = [''arm'', ''aarch64'', ''x86_64'', ''i386'', ''mips'', ''mips64'']"
    using hash_style_flag_iff [of example_host "''/aosp/out/stage2-install''" False]
    by (rule conjunct1)
  have len: "length ?g = 6"
    using arg_cong [OF ids, of length] by simp
  have m: "?g ! 4 \<in> set ?g" and i: "?g ! 3 \<in> set ?g"
    using len by simp_all
  have fm: "fst (?g ! 4) = ''mips''" and fi: "fst (?g ! 3) = ''i386''"
    using arg_cong [OF ids, of "\<lambda>xs. xs ! 4"] arg_cong [OF ids, of "\<lambda>xs. xs ! 3"] len
    by simp_all
  obtain am tm dm cm where gm: "?g ! 4 = (am, tm, dm, cm)"
    by (cases "?g ! 4")
  obtain ai ti di ci where gi: "?g ! 3 = (ai, ti, di, ci)"
    by (cases "?g ! 3")
  from ball m have "\<exists>e \<in> set configs. ?Q (?g ! 4) e"
    by (rule bspec)
  then obtain em where "?Q (?g ! 4) em"
    unfolding Bex_def by (elim exE conjE)
  with fm have pm: "map_of dm ''CMAKE_EXE_LINKER_FLAGS''
                      = Some (str_join '' '' (cross_ldflags example_host False em))
                    \<and> ''-Wl,--hash-style=both'' \<notin> set (cross_ldflags example_host False em)"
    unfolding gm by simp
  from ball i have "\<exists>e \<in> set configs. ?Q (?g ! 3) e"
    by (rule bspec)
  then obtain ei where "?Q (?g ! 3) ei"
    unfolding Bex_def by (elim exE conjE)
  with fi have pi: "map_of di ''CMAKE_EXE_LINKER_FLAGS''
                      = Some (str_join '' '' (cross_ldflags example_host False ei))
                    \<and> ''-Wl,--hash-style=both'' \<in> set (cross_ldflags example_host False ei)"
    unfolding gi by simp
  have A: "fst (?g ! 4) = ''mips''
      \<and> (\<exists>ldflags. map_of (fst (snd (snd (?g ! 4)))) ''CMAKE_EXE_LINKER_FLAGS''
                       = Some (str_join '' '' ldflags)
                    \<and> ''-Wl,--hash-style=both'' \<notin> set ldflags)"
    using fm pm unfolding gm
    by (intro conjI exI [of _ "cross_ldflags example_host False em"]) simp_all
  have B: "fst (?g ! 3) = ''i386''
      \<and> (\<exists>ldflags. map_of (fst (snd (snd (?g ! 3)))) ''CMAKE_EXE_LINKER_FLAGS''
                       = Some (str_join '' '' ldflags)
                    \<and> ''-Wl,--hash-style=both'' \<in> set ldflags)"
    using fi pi unfolding gi
    by (intro conjI exI [of _ "cross_ldflags example_host False ei"]) simp_all
  show ?thesis
  proof (rule conjI)
    show "\<exists>c \<in> set ?g. fst c = ''mips''
      \<and> (\<exists>ldflags. map_of (fst (snd (snd c))) ''CMAKE_EXE_LINKER_FLAGS''
                       = Some (str_join '' '' ldflags)
                    \<and> ''-Wl,--hash-style=both'' \<notin> set ldflags)"
      by (rule bexI [where x = "?g ! 4"]) (rule A, rule m)
    show "\<exists>c \<in> set ?g. fst c = ''i386''
      \<and> (\<exists>ldflags. map_of (fst (snd (snd c))) ''CMAKE_EXE_LINKER_FLAGS''
                       = Some (str_join '' '' ldflags)
                    \<and> ''-Wl,--hash-style=both'' \<in> set ldflags)"
      by (rule bexI [where x = "?g ! 3"]) (rule B, rule i)
  qed
qed

subsection \<open>Stage 2 in instrumented mode\<close>





subsection \<open>Extra definitions override the base definitions\<close>





subsection \<open>Every program of the pipeline is fail-stop\<close>

lemma calls_ok_from_append:
  "calls_ok_from orc pre (t @ u) = (calls_ok_from orc pre t \<and> calls_ok_from orc (pre @ t) u)"
  by (induction t arbitrary: pre) auto

lemma calls_ok_Nil [simp]: "calls_ok orc []"
  by (simp add: calls_ok_def)

lemma calls_ok_append:
  "calls_ok orc (t @ u) = (calls_ok orc t \<and> calls_ok_from orc t u)"
  by (simp add: calls_ok_def calls_ok_from_append)

lemma calls_ok_snoc:
  "calls_ok orc (t @ [e]) = (calls_ok orc t \<and> (case e of Call c \<Rightarrow> engine orc t c | _ \<Rightarrow> True))"
  by (simp add: calls_ok_append)

lemma fail_stop_return: "fail_stop orc (return_prog x)"
  by (simp add: fail_stop_def return_prog_def)

lemma fail_stop_raise: "fail_stop orc (raise (RuntimeError s))"
  by (simp add: fail_stop_def raise_def)

lemma fail_stop_ask: "fail_stop orc (ask q)"
  by (simp add: fail_stop_def ask_def)

lemma fail_stop_emit: "(\<And>c. e \<noteq> Call c) \<Longrightarrow> fail_stop orc (emit e)"
  by (cases e) (auto simp: fail_stop_def emit_def calls_ok_snoc)

lemma fail_stop_check_call: "fail_stop orc (check_call orc c)"
proof -
  have "\<exists>new. snd (check_call orc c t) = t @ new
          \<and> (case fst (check_call orc c t) of
                Inr x \<Rightarrow> calls_ok orc (t @ new)
              | Inl e \<Rightarrow>
                  (\<exists>s. e = RuntimeError s \<and> calls_ok orc (t @ new))
                  \<or> (\<exists>pre c. new = pre @ [Call c] \<and> calls_ok orc (t @ pre)
                         \<and> \<not> engine orc (t @ pre) c \<and> e = CalledProcessError c))"
    if ok: "calls_ok orc t" for t
  proof (cases "engine orc (t @ [Log Info ''check_call:%s %s'' [str_join '' '' (argv c)]]) c")
    case True
    with ok show ?thesis
      by (simp add: check_call_def Let_def calls_ok_append)
  next
    case False
    define l where "l = Log Info ''check_call:%s %s'' [str_join '' '' (argv c)]"
    define new where "new = [l, Call c]"
    have s: "snd (check_call orc c t) = t @ new"
      and f: "fst (check_call orc c t) = Inl (CalledProcessError c)"
      using False by (simp_all add: check_call_def Let_def new_def l_def)
    have okl: "calls_ok orc (t @ [l])"
      using ok by (simp add: calls_ok_snoc l_def)
    have "new = [l] @ [Call c] \<and> calls_ok orc (t @ [l])
            \<and> \<not> engine orc (t @ [l]) c \<and> CalledProcessError c = CalledProcessError c"
      using okl False by (simp add: new_def l_def)
    then have "\<exists>pre c'. new = pre @ [Call c'] \<and> calls_ok orc (t @ pre)
                 \<and> \<not> engine orc (t @ pre) c' \<and> CalledProcessError c = CalledProcessError c'"
      by (intro exI)
    then have "case fst (check_call orc c t) of
                Inr x \<Rightarrow> calls_ok orc (t @ new)
              | Inl e \<Rightarrow>
                  (\<exists>s. e = RuntimeError s \<and> calls_ok orc (t @ new))
                  \<or> (\<exists>pre c'. new = pre @ [Call c'] \<and> calls_ok orc (t @ pre)
                         \<and> \<not> engine orc (t @ pre) c' \<and> e = CalledProcessError c')"
      unfolding f sum.case by (rule disjI2)
    with s show ?thesis
      by (intro exI [of _ new] conjI)
  qed
  then show ?thesis
    unfolding fail_stop_def by blast
qed

lemma fail_stop_bind:
  assumes m: "fail_stop orc m" and f: "\<And>x. fail_stop orc (f x)"
  shows "fail_stop orc (bind_prog m f)"
  unfolding fail_stop_def
proof (intro allI impI)
  fix t
  assume ok: "calls_ok orc t"
  from m ok obtain n1 where s1: "snd (m t) = t @ n1"
    and c1: "case fst (m t) of
               Inr x \<Rightarrow> calls_ok orc (t @ n1)
             | Inl e \<Rightarrow>
                 (\<exists>s. e = RuntimeError s \<and> calls_ok orc (t @ n1))
                 \<or> (\<exists>pre c. n1 = pre @ [Call c] \<and> calls_ok orc (t @ pre)
                        \<and> \<not> engine orc (t @ pre) c \<and> e = CalledProcessError c)"
    unfolding fail_stop_def by blast
  show "\<exists>new. snd (bind_prog m f t) = t @ new
          \<and> (case fst (bind_prog m f t) of
                Inr x \<Rightarrow> calls_ok orc (t @ new)
              | Inl e \<Rightarrow>
                  (\<exists>s. e = RuntimeError s \<and> calls_ok orc (t @ new))
                  \<or> (\<exists>pre c. new = pre @ [Call c] \<and> calls_ok orc (t @ pre)
                         \<and> \<not> engine orc (t @ pre) c \<and> e = CalledProcessError c))"
  proof (cases "fst (m t)")
    case (Inl e)
    then have "m t = (Inl e, t @ n1)"
      using s1 by (cases "m t") simp
    then have "bind_prog m f t = (Inl e, t @ n1)"
      by (simp add: bind_prog_def)
    with Inl c1 show ?thesis
      by (intro exI [of _ n1]) simp
  next
    case (Inr x)
    then have mt: "m t = (Inr x, t @ n1)"
      using s1 by (cases "m t") simp
    then have b: "bind_prog m f t = f x (t @ n1)"
      by (simp add: bind_prog_def)
    from c1 Inr have ok1: "calls_ok orc (t @ n1)"
      by simp
    from f [of x] ok1 obtain n2 where s2: "snd (f x (t @ n1)) = (t @ n1) @ n2"
      and c2: "case fst (f x (t @ n1)) of
                 Inr y \<Rightarrow> calls_ok orc ((t @ n1) @ n2)
               | Inl e \<Rightarrow>
                   (\<exists>s. e = RuntimeError s \<and> calls_ok orc ((t @ n1) @ n2))
                   \<or> (\<exists>pre c. n2 = pre @ [Call c] \<and> calls_ok orc ((t @ n1) @ pre)
                          \<and> \<not> engine orc ((t @ n1) @ pre) c \<and> e = CalledProcessError c)"
      unfolding fail_stop_def by blast
    show ?thesis
    proof (intro exI [of _ "n1 @ n2"] conjI)
      show "snd (bind_prog m f t) = t @ n1 @ n2"
        using b s2 by simp
      show "case fst (bind_prog m f t) of
              Inr x \<Rightarrow> calls_ok orc (t @ n1 @ n2)
            | Inl e \<Rightarrow>
                (\<exists>s. e = RuntimeError s \<and> calls_ok orc (t @ n1 @ n2))
                \<or> (\<exists>pre c. n1 @ n2 = pre @ [Call c] \<and> calls_ok orc (t @ pre)
                       \<and> \<not> engine orc (t @ pre) c \<and> e = CalledProcessError c)"
      proof (cases "fst (f x (t @ n1))")
        case (Inr y)
        with c2 b show ?thesis by simp
      next
        case (Inl e)
        with c2 have "(\<exists>s. e = RuntimeError s \<and> calls_ok orc ((t @ n1) @ n2))
            \<or> (\<exists>pre c. n2 = pre @ [Call c] \<and> calls_ok orc ((t @ n1) @ pre)
                   \<and> \<not> engine orc ((t @ n1) @ pre) c \<and> e = CalledProcessError c)"
          by simp
        then show ?thesis
        proof
          assume "\<exists>s. e = RuntimeError s \<and> calls_ok orc ((t @ n1) @ n2)"
          with Inl b show ?thesis by simp
        next
          assume "\<exists>pre c. n2 = pre @ [Call c] \<and> calls_ok orc ((t @ n1) @ pre)
                   \<and> \<not> engine orc ((t @ n1) @ pre) c \<and> e = CalledProcessError c"
          then obtain pre c where "n2 = pre @ [Call c]" "calls_ok orc ((t @ n1) @ pre)"
            "\<not> engine orc ((t @ n1) @ pre) c" "e = CalledProcessError c"
            by blast
          then have "n1 @ n2 = (n1 @ pre) @ [Call c] \<and> calls_ok orc (t @ (n1 @ pre))
                     \<and> \<not> engine orc (t @ (n1 @ pre)) c \<and> e = CalledProcessError c"
            by simp
          then have "\<exists>pre c. n1 @ n2 = pre @ [Call c] \<and> calls_ok orc (t @ pre)
                       \<and> \<not> engine orc (t @ pre) c \<and> e = CalledProcessError c"
            by blast
          with Inl b show ?thesis by simp
        qed
      qed
    qed
  qed
qed

lemma fail_stop_seq: "(\<And>m. m \<in> set ms \<Longrightarrow> fail_stop orc m) \<Longrightarrow> fail_stop orc (seq ms)"
proof (induction ms)
  case Nil
  show ?case by (simp add: fail_stop_return)
next
  case (Cons m ms)
  have "fail_stop orc (bind_prog m (\<lambda>_. seq ms))"
    by (rule fail_stop_bind) (simp_all add: Cons)
  then show ?case by simp
qed

lemma fail_stop_seq_Nil: "fail_stop orc (seq [])"
  by (simp add: fail_stop_return)

lemma fail_stop_seq_Cons:
  "fail_stop orc m \<Longrightarrow> fail_stop orc (seq ms) \<Longrightarrow> fail_stop orc (seq (m # ms))"
  by (simp add: fail_stop_bind)

lemma fail_stop_for_each: "(\<And>x. fail_stop orc (body x)) \<Longrightarrow> fail_stop orc (for_each xs body)"
  unfolding for_each_def by (rule fail_stop_seq) auto

lemma fail_stop_when: "fail_stop orc m \<Longrightarrow> fail_stop orc (when_prog b m)"
  by (simp add: when_prog_def fail_stop_return)

lemma fail_stop_if:
  "fail_stop orc m1 \<Longrightarrow> fail_stop orc m2 \<Longrightarrow> fail_stop orc (if b then m1 else m2)"
  by simp

lemma fail_stop_case_prod:
  "(\<And>a b. fail_stop orc (f a b)) \<Longrightarrow> fail_stop orc (case p of (a, b) \<Rightarrow> f a b)"
  by (cases p) simp

lemmas fail_stop_intros =
  fail_stop_return fail_stop_raise fail_stop_ask fail_stop_emit fail_stop_check_call
  fail_stop_bind fail_stop_seq_Nil fail_stop_seq_Cons fail_stop_for_each fail_stop_when
  fail_stop_if fail_stop_case_prod

lemma fail_stop_check_create_path: "fail_stop orc (check_create_path orc p)"
  unfolding check_create_path_def by (intro fail_stop_intros) simp

lemma fail_stop_install_file: "fail_stop orc (install_file src dst)"
  unfolding install_file_def by (intro fail_stop_intros) simp_all

lemma fail_stop_remove: "fail_stop orc (remove p)"
  unfolding remove_def by (intro fail_stop_intros) simp_all

lemma fail_stop_rm_cmake_cache: "fail_stop orc (rm_cmake_cache p)"
  unfolding rm_cmake_cache_def by (intro fail_stop_intros) simp

lemma fail_stop_extract_clang_version: "fail_stop orc (extract_clang_version orc p)"
  unfolding extract_clang_version_def by (rule fail_stop_ask)

lemma fail_stop_invoke_cmake:
  "fail_stop orc (invoke_cmake h orc outp defines env cmake_path target install)"
  unfolding invoke_cmake_def Let_def
  by (intro fail_stop_intros fail_stop_check_create_path)

lemma fail_stop_build_llvm:
  "fail_stop orc (build_llvm h orc targets build_dir install_dir build_name extra env)"
  unfolding build_llvm_def Let_def by (rule fail_stop_invoke_cmake)

lemma fail_stop_build_stage1:
  "fail_stop orc (build_stage1 h orc stage1_install build_name tools)"
  unfolding build_stage1_def by (rule fail_stop_build_llvm)

lemma stage2_extra_defines_Inl:
  assumes "stage2_extra_defines h s1 lld asr dbg instr profdata = Inl e"
  shows "e = RuntimeError ''Cannot simultaneously instrument and use profiles''"
proof (cases profdata)
  case None
  with assms show ?thesis
    by (simp add: stage2_extra_defines_def Let_def)
next
  case (Some pf)
  show ?thesis
  proof (cases "pf = []")
    case True
    with assms Some show ?thesis
      by (simp add: stage2_extra_defines_def Let_def)
  next
    case False
    with assms Some show ?thesis
      by (cases instr) (simp_all add: stage2_extra_defines_def Let_def)
  qed
qed

lemma fail_stop_build_stage2:
  "fail_stop orc (build_stage2 h orc s1 s2 tg bn lld asr dbg instr profdata)"
proof (cases "stage2_extra_defines h s1 lld asr dbg instr profdata")
  case (Inl e)
  with stage2_extra_defines_Inl [OF Inl] show ?thesis
    by (simp add: build_stage2_def fail_stop_raise)
next
  case (Inr extra)
  then show ?thesis
    by (simp add: build_stage2_def fail_stop_build_llvm)
qed

lemma fail_stop_build_asan_test: "fail_stop orc (build_asan_test orc stage2_install)"
  unfolding build_asan_test_def Let_def
  by (intro fail_stop_intros fail_stop_check_create_path) simp_all

lemma fail_stop_build_asan_map_files: "fail_stop orc (build_asan_map_files stage2_install v)"
  unfolding build_asan_map_files_def Let_def
  by (intro fail_stop_intros) simp_all

lemma fail_stop_build_crts: "fail_stop orc (build_crts h orc stage2_install v)"
  unfolding build_crts_def Let_def
  by (intro fail_stop_intros fail_stop_rm_cmake_cache fail_stop_invoke_cmake) simp_all

lemma fail_stop_build_crts_host_i686:
  "fail_stop orc (build_crts_host_i686 h orc stage2_install v)"
  unfolding build_crts_host_i686_def Let_def
  by (intro fail_stop_intros fail_stop_rm_cmake_cache fail_stop_invoke_cmake)

lemma fail_stop_build_libfuzzers:
  "fail_stop orc (build_libfuzzers h orc stage2_install v ndk_cxx)"
  unfolding build_libfuzzers_def Let_def
  by (intro fail_stop_intros fail_stop_rm_cmake_cache fail_stop_invoke_cmake
      fail_stop_check_create_path) simp_all

lemma fail_stop_build_libomp: "fail_stop orc (build_libomp h orc stage2_install v ndk_cxx)"
  unfolding build_libomp_def Let_def
  by (intro fail_stop_intros fail_stop_rm_cmake_cache fail_stop_invoke_cmake
      fail_stop_check_create_path) simp_all

lemma fail_stop_build_runtimes: "fail_stop orc (build_runtimes h orc stage2_install)"
  unfolding build_runtimes_def
  by (intro fail_stop_intros fail_stop_extract_clang_version fail_stop_build_crts
      fail_stop_build_crts_host_i686 fail_stop_build_libfuzzers fail_stop_build_libomp
      fail_stop_build_asan_test fail_stop_build_asan_map_files)

lemma fail_stop_build_llvm_for_windows:
  "fail_stop orc (build_llvm_for_windows h orc targets asr build_dir install_dir build_name
                    native is32)"
  unfolding build_llvm_for_windows_def Let_def
  by (intro fail_stop_intros fail_stop_check_create_path fail_stop_build_llvm) simp_all

lemma fail_stop_install_wrappers: "fail_stop orc (install_wrappers h orc p)"
  unfolding install_wrappers_def Let_def
  by (intro fail_stop_intros fail_stop_install_file) simp_all

lemma normalize_lib_error:
  "normalize_lib libdir v l d = (Some e, d') \<Longrightarrow> \<exists>s. e = RuntimeError s"
  by (auto simp: normalize_lib_def Let_def split: if_splits)

lemma normalize_loop_error:
  "normalize_loop libdir v ls d = (Some e, d') \<Longrightarrow> \<exists>s. e = RuntimeError s"
proof (induction ls arbitrary: d)
  case Nil
  then show ?case by simp
next
  case (Cons l ls)
  obtain r d1 where step: "normalize_lib libdir v l d = (r, d1)"
    by (cases "normalize_lib libdir v l d")
  show ?case
  proof (cases r)
    case None
    with Cons.prems step have "normalize_loop libdir v ls d1 = (Some e, d')"
      by simp
    then show ?thesis by (rule Cons.IH)
  next
    case (Some e1)
    with Cons.prems step have "e1 = e"
      by simp
    with Some step show ?thesis
      by (auto dest: normalize_lib_error)
  qed
qed

lemma fail_stop_normalize_step: "fail_stop orc (normalize_step orc install_dir host_name v)"
proof -
  have body: "fail_stop orc
          (case normalize_llvm_host_libs install_dir host_name v d of
             (r, d') \<Rightarrow>
               seq [emit (NormalizedLibs (path_join install_dir [''lib64'']) d'),
                    case r of None \<Rightarrow> return_prog () | Some e \<Rightarrow> raise e])" for d
  proof (cases "normalize_llvm_host_libs install_dir host_name v d")
    case (Pair r d')
    have "fail_stop orc (case r of None \<Rightarrow> return_prog () | Some e \<Rightarrow> raise e)"
    proof (cases r)
      case None
      then show ?thesis by (simp add: fail_stop_return)
    next
      case (Some e)
      with Pair obtain s where "e = RuntimeError s"
        unfolding normalize_llvm_host_libs_def by (auto dest: normalize_loop_error)
      with Some show ?thesis by (simp add: fail_stop_raise)
    qed
    then have "fail_stop orc
                 (seq [emit (NormalizedLibs (path_join install_dir [''lib64'']) d'),
                       case r of None \<Rightarrow> return_prog () | Some e \<Rightarrow> raise e])"
      by (intro fail_stop_intros) simp_all
    with Pair show ?thesis by simp
  qed
  show ?thesis
    unfolding normalize_step_def by (rule fail_stop_bind [OF fail_stop_ask]) (rule body)
qed

lemma fail_stop_install_license_files: "fail_stop orc (install_license_files h orc p)"
  unfolding install_license_files_def Let_def
  by (intro fail_stop_intros fail_stop_install_file) simp_all

lemma fail_stop_install_winpthreads: "fail_stop orc (install_winpthreads h w32 p)"
  unfolding install_winpthreads_def Let_def by (rule fail_stop_install_file)

lemma fail_stop_remove_static_libraries: "fail_stop orc (remove_static_libraries orc p)"
  unfolding remove_static_libraries_def
  by (intro fail_stop_intros fail_stop_remove)

lemma fail_stop_package_toolchain:
  "fail_stop orc (package_toolchain h orc build_dir build_name host_name dist_dir strip)"
  unfolding package_toolchain_def Let_def
  by (intro fail_stop_intros fail_stop_extract_clang_version fail_stop_remove
      fail_stop_remove_static_libraries fail_stop_install_winpthreads
      fail_stop_install_wrappers fail_stop_normalize_step fail_stop_install_file
      fail_stop_install_license_files) simp_all

lemma fail_stop_build_stages: "fail_stop orc (build_stages h orc a)"
  unfolding build_stages_def Let_def extract_clang_long_version_def pgo_profdata_file_def
  by (intro fail_stop_intros fail_stop_build_stage1 fail_stop_build_stage2
      fail_stop_extract_clang_version)

lemma fail_stop_main: "fail_stop orc (main h orc a)"
  unfolding main_def Let_def
  by (intro fail_stop_intros fail_stop_build_stages fail_stop_build_runtimes
      fail_stop_build_llvm_for_windows fail_stop_package_toolchain) simp_all

end
